theory Spec2Isabelle
  imports Main
begin

section \<open>Python values and exceptions\<close>

text \<open>
  The authentication core of the patient service: \<^verbatim>\<open>app/utils/security.py\<close>
  (password hashing and verification, JWT issuance and validation),
  \<^verbatim>\<open>app/core/auth_backend.py\<close> (the backend selector) and
  \<^verbatim>\<open>app/core/config.py\<close> (the settings).

  Exceptions are values. Every constructor below stands for a subclass of Python's
  \<^verbatim>\<open>Exception\<close>, so \<^verbatim>\<open>except Exception\<close> catches each of them.
  \<^verbatim>\<open>ExpiredSignatureError\<close> and \<^verbatim>\<open>JWTClaimsError\<close> are subclasses of
  \<^verbatim>\<open>JWTError\<close> (jose.exceptions); \<^verbatim>\<open>JWSError\<close> and \<^verbatim>\<open>JWKError\<close> are not.
\<close>

datatype exc =
    ExpiredSignatureError
  | JWTClaimsError
  | JWTError
  | JWSError
  | JWKError
  | TokenDecodeError string
  | TypeError
  | ValueError
  | OverflowError
  | NotImplementedError
  | OtherError string

fun is_JWTError :: "exc \<Rightarrow> bool" where
  "is_JWTError ExpiredSignatureError = True"
| "is_JWTError JWTClaimsError = True"
| "is_JWTError JWTError = True"
| "is_JWTError _ = False"

text \<open>
  What \<^verbatim>\<open>json.loads\<close> returns: strings, integers, floats, booleans, \<^verbatim>\<open>None\<close>, lists
  and dicts with string keys. A float is given by its \<^verbatim>\<open>repr\<close> and by what \<^verbatim>\<open>int\<close> makes
  of it (its integral part, \<^verbatim>\<open>ValueError\<close> for nan, \<^verbatim>\<open>OverflowError\<close> for an infinity).
  Strings are byte strings (UTF-8).
\<close>

datatype json_value =
    JStr string
  | JInt int
  | JFloat string "exc + int"
  | JBool bool
  | JNull
  | JArray "json_value list"
  | JObject "(string \<times> json_value) list"

fun is_jstr :: "json_value \<Rightarrow> bool" where
  "is_jstr (JStr _) = True"
| "is_jstr _ = False"

text \<open>
  Claim values (\<^verbatim>\<open>Dict[str, Any]\<close>): strings, integers, booleans, \<^verbatim>\<open>None\<close>,
  timezone-aware UTC datetimes (microseconds since the epoch, the resolution of
  \<^verbatim>\<open>datetime\<close> and \<^verbatim>\<open>timedelta\<close>), and any other object. Another object (a float, a
  tuple, a list, a dict, bytes, a set, a date, a Decimal, an instance of a class of the
  caller) is given by what \<^verbatim>\<open>str\<close> makes of it and by what comes back when it is written
  as JSON and read again, each of them a value or an exception (for JSON, the exception
  that leaves \<^verbatim>\<open>jwt.encode\<close>: \<^verbatim>\<open>TypeError\<close> when \<^verbatim>\<open>json.dumps\<close> cannot serialise the
  object). Keys are strings, as the annotation says.
\<close>

datatype py_value =
    PyStr string
  | PyInt int
  | PyBool bool
  | PyNone
  | PyDatetime int
  | PyOther "exc + string" "exc + json_value"

text \<open>
  A dict is an association list in insertion order. Assigning to a key replaces the value
  in place when the key is present and appends the entry otherwise.
\<close>

type_synonym py_dict = "(string \<times> py_value) list"

type_synonym json_dict = "(string \<times> json_value) list"

fun setitem :: "(string \<times> 'v) list \<Rightarrow> string \<Rightarrow> 'v \<Rightarrow> (string \<times> 'v) list" where
  "setitem [] k v = [(k, v)]"
| "setitem ((k', v') # d) k v =
     (if k' = k then (k, v) # d else (k', v') # setitem d k v)"

text \<open>
  Dict objects live in a heap and are passed by reference: a reference is an index into
  the list of allocated dicts, and allocation appends. The values stored in a dict are
  immutable.
\<close>

type_synonym heap = "py_dict list"

definition heap_copy :: "heap \<Rightarrow> nat \<Rightarrow> heap \<times> nat" where
  \<comment> \<open>\<^verbatim>\<open>d.copy()\<close>: a new dict object with the same entries\<close>
  "heap_copy h r = (h @ [h ! r], length h)"

definition heap_setitem :: "heap \<Rightarrow> nat \<Rightarrow> string \<Rightarrow> py_value \<Rightarrow> heap" where
  \<comment> \<open>\<^verbatim>\<open>d[k] = v\<close> on the dict object behind the reference\<close>
  "heap_setitem h r k v = h[r := setitem (h ! r) k v]"

subsection \<open>Integers and decimal text\<close>

text \<open>
  The interpreter converts an integer to decimal text, and decimal text to an integer,
  only up to \<^verbatim>\<open>sys.int_info.default_max_str_digits\<close> digits, and raises \<^verbatim>\<open>ValueError\<close>
  beyond.
\<close>

definition int_max_str_digits :: nat where
  "int_max_str_digits = 4300"

definition int_str_ok :: "int \<Rightarrow> bool" where
  \<comment> \<open>the integer has at most \<open>int_max_str_digits\<close> digits\<close>
  "int_str_ok i = (\<bar>i\<bar> < 10 ^ int_max_str_digits)"

subsection \<open>The builtin \<^verbatim>\<open>str\<close>\<close>

fun str_nat :: "nat \<Rightarrow> string" where
  "str_nat n =
     (if n < 10 then [''0123456789'' ! n]
      else str_nat (n div 10) @ [''0123456789'' ! (n mod 10)])"

declare str_nat.simps [simp del]

definition str_int :: "int \<Rightarrow> string" where
  "str_int i = (if i < 0 then CHR ''-'' # str_nat (nat (- i)) else str_nat (nat i))"

definition zero_pad :: "nat \<Rightarrow> int \<Rightarrow> string" where
  \<comment> \<open>\<^verbatim>\<open>"%0wd"\<close> for a non-negative number\<close>
  "zero_pad w i = (let s = str_nat (nat i) in replicate (w - length s) CHR ''0'' @ s)"

definition civil_from_days :: "int \<Rightarrow> int \<times> int \<times> int" where
  \<comment> \<open>year, month and day of the proleptic Gregorian calendar, from days since 1970-01-01\<close>
  "civil_from_days z0 =
     (let z = z0 + 719468;
          era = z div 146097;
          doe = z - era * 146097;
          yoe = (doe - doe div 1460 + doe div 36524 - doe div 146096) div 365;
          y = yoe + era * 400;
          doy = doe - (365 * yoe + yoe div 4 - yoe div 100);
          mp = (5 * doy + 2) div 153;
          d = doy - (153 * mp + 2) div 5 + 1;
          m = (if mp < 10 then mp + 3 else mp - 9)
      in (if m \<le> 2 then y + 1 else y, m, d))"

definition str_datetime :: "int \<Rightarrow> string" where
  \<comment> \<open>\<^verbatim>\<open>str\<close> of an aware UTC datetime: \<^verbatim>\<open>isoformat(sep=' ')\<close>\<close>
  "str_datetime t =
     (let days = t div 86400000000;
          r = t mod 86400000000;
          secs = r div 1000000;
          us = r mod 1000000
      in case civil_from_days days of (y, m, d) \<Rightarrow>
           zero_pad 4 y @ ''-'' @ zero_pad 2 m @ ''-'' @ zero_pad 2 d @ '' '' @
           zero_pad 2 (secs div 3600) @ '':'' @ zero_pad 2 (secs div 60 mod 60) @ '':'' @
           zero_pad 2 (secs mod 60) @
           (if us = 0 then [] else ''.'' @ zero_pad 6 us) @ ''+00:00'')"

fun py_str :: "py_value \<Rightarrow> exc + string" where
  "py_str (PyStr s) = Inr s"
| "py_str (PyInt i) = (if int_str_ok i then Inr (str_int i) else Inl ValueError)"
| "py_str (PyBool b) = Inr (if b then ''True'' else ''False'')"
| "py_str PyNone = Inr ''None''"
| "py_str (PyDatetime t) = Inr (str_datetime t)"
| "py_str (PyOther s j) = s"

subsection \<open>The builtin \<^verbatim>\<open>int\<close> on a string\<close>

definition is_space :: "char \<Rightarrow> bool" where
  "is_space c = (c \<in> set [CHR '' '', CHR 0x09, CHR 0x0A, CHR 0x0B, CHR 0x0C, CHR 0x0D])"

definition is_digit :: "char \<Rightarrow> bool" where
  "is_digit c = (c \<in> set ''0123456789'')"

definition digit_val :: "char \<Rightarrow> int" where
  "digit_val c = int (of_char c) - 48"

fun digits_ok :: "string \<Rightarrow> bool" where
  \<comment> \<open>digits, single underscores allowed between two digits\<close>
  "digits_ok [] = False"
| "digits_ok [c] = is_digit c"
| "digits_ok (c # d # cs) =
     (is_digit c \<and> (if d = CHR ''_'' then digits_ok cs else digits_ok (d # cs)))"

definition int_of_digits :: "string \<Rightarrow> int" where
  "int_of_digits s = foldl (\<lambda>acc c. 10 * acc + digit_val c) 0 (filter is_digit s)"

definition int_of_str :: "string \<Rightarrow> exc + int" where
  \<comment> \<open>\<^verbatim>\<open>int(s)\<close> for an ASCII string, base 10\<close>
  "int_of_str s0 =
     (let s = rev (dropWhile is_space (rev (dropWhile is_space s0)));
          neg = (s \<noteq> [] \<and> hd s = CHR ''-'');
          body = (if s \<noteq> [] \<and> (hd s = CHR ''-'' \<or> hd s = CHR ''+'') then tl s else s)
      in if digits_ok body \<and> length (filter is_digit body) \<le> int_max_str_digits
         then Inr (if neg then - int_of_digits body else int_of_digits body)
         else Inl ValueError)"

definition is_ascii :: "string \<Rightarrow> bool" where
  "is_ascii s = list_all (\<lambda>c. (of_char c :: nat) < 128) s"

section \<open>Settings (\<^verbatim>\<open>app/core/config.py\<close>)\<close>

record settings =
  SECRET_KEY :: string
  ALGORITHM :: string
  ACCESS_TOKEN_EXPIRE_MINUTES :: int
  JWT_ISSUER :: "string option"
  JWT_AUDIENCE :: "string option"

definition default_settings :: settings where
  "default_settings =
     \<lparr> SECRET_KEY = ''change-me-in-prod-very-secret-and-long-string'',
       ALGORITHM = ''HS256'',
       ACCESS_TOKEN_EXPIRE_MINUTES = 30,
       JWT_ISSUER = None,
       JWT_AUDIENCE = None \<rparr>"

definition truthy :: "string option \<Rightarrow> bool" where
  \<comment> \<open>the truth value of an \<^verbatim>\<open>Optional[str]\<close>: \<^verbatim>\<open>None\<close> and the empty string are false\<close>
  "truthy x = (case x of None \<Rightarrow> False | Some s \<Rightarrow> s \<noteq> [])"

section \<open>Password helpers (\<^verbatim>\<open>app/utils/security.py\<close>)\<close>

text \<open>
  \<^verbatim>\<open>pwd_context = CryptContext(schemes=["bcrypt"], deprecated="auto")\<close> is an object of
  the passlib library, which is not part of the repository. The three methods the code
  calls are taken as parameters; each of them may return or raise. \<^verbatim>\<open>hash\<close> draws a
  fresh salt, given here as an argument. The stored hash is opaque to the code of the
  repository, so its type \<open>'h\<close> is a parameter as well.
\<close>

record 'h crypt_context =
  ctx_hash :: "string \<Rightarrow> string \<Rightarrow> exc + 'h"
  ctx_verify :: "string \<Rightarrow> 'h \<Rightarrow> exc + bool"
  ctx_needs_update :: "'h \<Rightarrow> exc + bool"

type_synonym 'h legacy_verify = "string \<Rightarrow> 'h \<Rightarrow> exc + bool"

definition hash_password :: "'h crypt_context \<Rightarrow> string \<Rightarrow> string \<Rightarrow> exc + 'h" where
  "hash_password pwd_context salt plain_password = ctx_hash pwd_context salt plain_password"

definition verify_password ::
  "'h crypt_context \<Rightarrow> string \<Rightarrow> 'h \<Rightarrow> 'h legacy_verify option \<Rightarrow> exc + (bool \<times> bool)" where
  "verify_password pwd_context plain_password stored_hash legacy_verify =
     (let valid = (case ctx_verify pwd_context plain_password stored_hash of
                     Inl _ \<Rightarrow> False
                   | Inr v \<Rightarrow> v)
      in if valid then
           (case ctx_needs_update pwd_context stored_hash of
              Inl e \<Rightarrow> Inl e
            | Inr should_rehash \<Rightarrow> Inr (True, should_rehash))
         else
           (case legacy_verify of
              Some f \<Rightarrow>
                (let legacy_ok = (case f plain_password stored_hash of
                                    Inl _ \<Rightarrow> False
                                  | Inr b \<Rightarrow> b)
                 in if legacy_ok then Inr (True, True) else Inr (False, False))
            | None \<Rightarrow> Inr (False, False)))"

subsection \<open>The hashing scheme\<close>

text \<open>
  Modelled from the spec: the current hashing scheme behind \<^verbatim>\<open>pwd_context\<close> (passlib's
  bcrypt context), whose code is not in the repository. The spec (4.1) describes it as
  adaptive and salted: \<^verbatim>\<open>hash\<close> "produces a new encoded secret using the current hashing
  scheme" and "never fails for well-formed input"; verification is "under the current
  scheme", an internal error counting as failure; and the rehash flag "reflects whether
  the stored encoding's parameters (e.g., work factor) are weaker than the scheme's
  current defaults". A stored secret is therefore either an encoding of the scheme (work
  factor, salt, digest) or any other string (a legacy or foreign value), on which the
  scheme raises. The digest function is arbitrary.
\<close>

datatype stored_secret = Encoded nat string string | Opaque string

record hashing_scheme =
  work_factor :: nat
  digest :: "nat \<Rightarrow> string \<Rightarrow> string \<Rightarrow> string"

definition scheme_context :: "hashing_scheme \<Rightarrow> stored_secret crypt_context" where
  "scheme_context sc =
     \<lparr> ctx_hash = (\<lambda>salt secret.
          Inr (Encoded (work_factor sc) salt (digest sc (work_factor sc) salt secret))),
       ctx_verify = (\<lambda>secret stored.
          case stored of
            Encoded w salt d \<Rightarrow> Inr (digest sc w salt secret = d)
          | Opaque _ \<Rightarrow> Inl ValueError),
       ctx_needs_update = (\<lambda>stored.
          case stored of
            Encoded w salt d \<Rightarrow> Inr (w < work_factor sc)
          | Opaque _ \<Rightarrow> Inl ValueError) \<rparr>"

text \<open>
  A scheme instance for running the definitions on concrete inputs (its digest is not
  one-way), and the legacy check of \<^verbatim>\<open>tests/test_security.py\<close>.
\<close>

definition demo_scheme :: hashing_scheme where
  "demo_scheme = \<lparr> work_factor = 12, digest = (\<lambda>w salt secret. salt @ ''|'' @ secret) \<rparr>"

definition legacy_verify_example :: "stored_secret legacy_verify" where
  "legacy_verify_example plain stored_hash =
     (case stored_hash of
        Opaque s \<Rightarrow>
          (if take 7 s = ''LEGACY:'' then Inr (s = ''LEGACY:'' @ plain) else Inr False)
      | Encoded w salt d \<Rightarrow> Inr False)"

section \<open>Authentication backends (\<^verbatim>\<open>app/core/auth_backend.py\<close>)\<close>

record 'h user =
  user_id :: int
  email :: string
  hashed_password :: 'h
  is_active :: bool

record login_schema =
  login_email :: string
  login_password :: string

text \<open>The users table, in row order; the query returns the first row with the email.\<close>

definition get_user_by_email :: "'h user list \<Rightarrow> string \<Rightarrow> 'h user option" where
  "get_user_by_email db e = find (\<lambda>u. email u = e) db"

datatype auth_backend = DatabaseAuthBackend | AzureB2CAuthBackend

definition database_authenticate ::
  "'h crypt_context \<Rightarrow> 'h user list \<Rightarrow> login_schema \<Rightarrow> exc + 'h user option" where
  "database_authenticate pwd_context db credentials =
     (case get_user_by_email db (login_email credentials) of
        None \<Rightarrow> Inr None
      | Some u \<Rightarrow>
          (case verify_password pwd_context (login_password credentials) (hashed_password u) None of
             Inl e \<Rightarrow> Inl e
           | Inr (valid, _) \<Rightarrow> if \<not> valid then Inr None else Inr (Some u)))"

definition azure_b2c_authenticate ::
  "'h crypt_context \<Rightarrow> 'h user list \<Rightarrow> login_schema \<Rightarrow> exc + 'h user option" where
  "azure_b2c_authenticate pwd_context db credentials = Inl NotImplementedError"

fun backend_authenticate ::
  "auth_backend \<Rightarrow> 'h crypt_context \<Rightarrow> 'h user list \<Rightarrow> login_schema \<Rightarrow> exc + 'h user option" where
  "backend_authenticate DatabaseAuthBackend = database_authenticate"
| "backend_authenticate AzureB2CAuthBackend = azure_b2c_authenticate"

definition authenticate ::
  "'h crypt_context \<Rightarrow> 'h user list \<Rightarrow> login_schema \<Rightarrow> auth_backend option
     \<Rightarrow> exc + 'h user option" where
  "authenticate pwd_context db credentials backend =
     (let backend' = (case backend of None \<Rightarrow> DatabaseAuthBackend | Some b \<Rightarrow> b)
      in backend_authenticate backend' pwd_context db credentials)"

section \<open>Time\<close>

text \<open>
  Instants and durations are integers, in microseconds. A \<^verbatim>\<open>datetime\<close> lies between
  the years 1 and 9999 and a \<^verbatim>\<open>timedelta\<close> within 999999999 days; arithmetic that
  leaves the range raises \<^verbatim>\<open>OverflowError\<close>. The clock is an argument of the functions
  that read it; a clock beyond the range of \<^verbatim>\<open>datetime\<close> cannot be read as one.
\<close>

definition datetime_min :: int where
  "datetime_min = - 62135596800000000"

definition datetime_max :: int where
  "datetime_max = 253402300799999999"

definition utc_now :: "int \<Rightarrow> exc + int" where
  \<comment> \<open>\<^verbatim>\<open>datetime.datetime.now(datetime.timezone.utc)\<close>\<close>
  "utc_now clock =
     (if datetime_min \<le> clock \<and> clock \<le> datetime_max then Inr clock else Inl OverflowError)"

definition datetime_add :: "int \<Rightarrow> int \<Rightarrow> exc + int" where
  "datetime_add t d =
     (if datetime_min \<le> t + d \<and> t + d \<le> datetime_max then Inr (t + d) else Inl OverflowError)"

definition timedelta_minutes :: "int \<Rightarrow> exc + int" where
  \<comment> \<open>\<^verbatim>\<open>timedelta(minutes=m)\<close>\<close>
  "timedelta_minutes m =
     (if - 999999999 \<le> m div 1440 \<and> m div 1440 \<le> 999999999 then Inr (m * 60000000)
      else Inl OverflowError)"

definition timegm :: "int \<Rightarrow> int" where
  \<comment> \<open>\<^verbatim>\<open>timegm(t.utctimetuple())\<close>: whole seconds since the epoch, the fraction dropped\<close>
  "timegm t = t div 1000000"

section \<open>The JWT library\<close>

text \<open>
  \<^verbatim>\<open>jwt.encode\<close> and \<^verbatim>\<open>jwt.decode\<close> come from python-jose, which is not part of the
  repository; the definitions of this section follow \<^verbatim>\<open>jose/jwt.py\<close> and
  \<^verbatim>\<open>jose/jws.py\<close>.

  A compact token, a string that encodes as UTF-8, is represented by what the parser
  makes of it: either it does not split into three decodable segments with a JSON object
  as header, or it has a header (its \<^verbatim>\<open>alg\<close>, empty when the header names none), a
  payload and a signature. The payload is a JSON object, or
  bytes that \<^verbatim>\<open>json.loads\<close> refuses or reads as anything else. The signature is symbolic:
  the MAC of header and payload under a key, or any other bytes.
\<close>

datatype payload = Claims json_dict | NotAnObject string

datatype signature = Mac string string payload | Bytes string

datatype token = Malformed string | Jws string payload signature

fun get_unverified_claims :: "token \<Rightarrow> json_dict option" where
  \<comment> \<open>the claims a token carries, read without any check\<close>
  "get_unverified_claims (Jws alg (Claims claims) sig) = Some claims"
| "get_unverified_claims _ = None"

subsection \<open>Keys and algorithms\<close>

text \<open>
  With an HMAC algorithm the key is a secret string, used as it is, provided the library
  takes it for one. When it verifies, python-jose first tries to read the key as a JSON
  document (a key set), and its HMAC keys refuse strings that look like PEM or SSH keys.
  A non-empty string of ASCII letters and hyphens that begins with a letter other than
  \<open>n\<close>, \<open>t\<close>, \<open>f\<close>, \<open>N\<close>, \<open>I\<close> and does not contain \<open>ssh-\<close> is neither: no JSON document
  begins that way, and no such key format is made of these characters alone.

  What the library does outside this case is not modelled. It is a parameter: which other
  algorithm names \<^verbatim>\<open>jws.sign\<close> supports, the signature it computes (\<open>None\<close> when signing
  raises, which the library reports as \<^verbatim>\<open>JWSError\<close>), and whether a signature verifies
  (or the exception \<^verbatim>\<open>jwt.decode\<close> raises while it builds the keys). The last parameter is
  \<^verbatim>\<open>int\<close> on a string that is not ASCII.
\<close>

record library =
  supported_other :: "string \<Rightarrow> bool"
  sign_other :: "string \<Rightarrow> string \<Rightarrow> payload \<Rightarrow> signature option"
  verify_other :: "string \<Rightarrow> string \<Rightarrow> payload \<Rightarrow> signature \<Rightarrow> exc + bool"
  int_of_text :: "string \<Rightarrow> exc + int"

definition ALGORITHMS_HMAC :: "string list" where
  "ALGORITHMS_HMAC = [''HS256'', ''HS384'', ''HS512'']"

fun contains :: "string \<Rightarrow> string \<Rightarrow> bool" where
  \<comment> \<open>\<open>contains x s\<close>: \<open>x\<close> occurs in \<open>s\<close>\<close>
  "contains x [] = (x = [])"
| "contains x (c # cs) = (take (length x) (c # cs) = x \<or> contains x cs)"

definition plain_secret :: "string \<Rightarrow> bool" where
  "plain_secret key =
     (key \<noteq> []
      \<and> list_all (\<lambda>c. c \<in> set ''abcdefghijklmnopqrstuvwxyzABCDEFGHIJKLMNOPQRSTUVWXYZ-'') key
      \<and> hd key \<notin> set ''-ntfNI''
      \<and> \<not> contains ''ssh-'' key)"

definition alg_supported :: "library \<Rightarrow> string \<Rightarrow> bool" where
  "alg_supported lib alg = (alg \<in> set ALGORITHMS_HMAC \<or> supported_other lib alg)"

definition sign_with :: "library \<Rightarrow> string \<Rightarrow> string \<Rightarrow> payload \<Rightarrow> signature option" where
  "sign_with lib alg key p =
     (if alg \<in> set ALGORITHMS_HMAC \<and> plain_secret key then Some (Mac alg key p)
      else sign_other lib alg key p)"

definition verify_with ::
  "library \<Rightarrow> string \<Rightarrow> string \<Rightarrow> payload \<Rightarrow> signature \<Rightarrow> exc + bool" where
  "verify_with lib alg key p sig =
     (if alg \<in> set ALGORITHMS_HMAC \<and> plain_secret key then Inr (sig = Mac alg key p)
      else verify_other lib alg key p sig)"

subsection \<open>\<^verbatim>\<open>jwt.encode\<close>\<close>

fun json_value_of :: "py_value \<Rightarrow> exc + json_value" where
  \<comment> \<open>a value written by \<^verbatim>\<open>json.dumps\<close> and read back; \<^verbatim>\<open>jwt.encode\<close> raises \<^verbatim>\<open>TypeError\<close>
      when the value cannot be written\<close>
  "json_value_of (PyStr s) = Inr (JStr s)"
| "json_value_of (PyInt i) = (if int_str_ok i then Inr (JInt i) else Inl TypeError)"
| "json_value_of (PyBool b) = Inr (JBool b)"
| "json_value_of PyNone = Inr JNull"
| "json_value_of (PyDatetime t) = Inl TypeError"
| "json_value_of (PyOther s j) = j"

fun dumps_keys :: "py_dict \<Rightarrow> string list \<Rightarrow> exc + json_dict" where
  \<comment> \<open>the entries of the dict under the given keys, in order, up to the first error\<close>
  "dumps_keys d [] = Inr []"
| "dumps_keys d (k # ks) =
     (case map_of d k of
        None \<Rightarrow> dumps_keys d ks
      | Some v \<Rightarrow>
          (case json_value_of v of
             Inl e \<Rightarrow> Inl e
           | Inr j \<Rightarrow>
               (case dumps_keys d ks of
                  Inl e \<Rightarrow> Inl e
                | Inr js \<Rightarrow> Inr ((k, j) # js))))"

definition json_dumps :: "py_dict \<Rightarrow> exc + json_dict" where
  "json_dumps d = dumps_keys d (map fst d)"

definition jws_sign :: "library \<Rightarrow> py_dict \<Rightarrow> string \<Rightarrow> string \<Rightarrow> exc + token" where
  \<comment> \<open>the algorithm is looked up first, then the payload is serialised, then it is signed\<close>
  "jws_sign lib claims key algorithm =
     (if \<not> alg_supported lib algorithm then Inl JWSError
      else (case json_dumps claims of
              Inl e \<Rightarrow> Inl e
            | Inr p \<Rightarrow>
                (case sign_with lib algorithm key (Claims p) of
                   None \<Rightarrow> Inl JWSError
                 | Some sig \<Rightarrow> Inr (Jws algorithm (Claims p) sig))))"

definition convert_time_claim :: "string \<Rightarrow> py_dict \<Rightarrow> py_dict" where
  "convert_time_claim time_claim claims =
     (case map_of claims time_claim of
        Some (PyDatetime t) \<Rightarrow> setitem claims time_claim (PyInt (timegm t))
      | _ \<Rightarrow> claims)"

definition jwt_encode ::
  "library \<Rightarrow> heap \<Rightarrow> nat \<Rightarrow> string \<Rightarrow> string \<Rightarrow> heap \<times> (exc + token)" where
  \<comment> \<open>converts the datetimes of the time claims in place, in the caller's dict object, then signs\<close>
  "jwt_encode lib h claims key algorithm =
     (let h' = h[claims := fold convert_time_claim [''exp'', ''iat'', ''nbf''] (h ! claims)]
      in (h', jws_sign lib (h' ! claims) key algorithm))"

subsection \<open>\<^verbatim>\<open>jwt.decode\<close>\<close>

fun json_int :: "library \<Rightarrow> json_value \<Rightarrow> exc + int" where
  \<comment> \<open>the builtin \<^verbatim>\<open>int\<close> on a value of a decoded payload\<close>
  "json_int lib (JInt i) = Inr i"
| "json_int lib (JBool b) = Inr (if b then 1 else 0)"
| "json_int lib (JStr s) = (if is_ascii s then int_of_str s else int_of_text lib s)"
| "json_int lib (JFloat r t) = t"
| "json_int lib JNull = Inl TypeError"
| "json_int lib (JArray xs) = Inl TypeError"
| "json_int lib (JObject kvs) = Inl TypeError"

definition claim_int :: "library \<Rightarrow> json_value \<Rightarrow> exc + int" where
  \<comment> \<open>\<^verbatim>\<open>int(claims[k])\<close> under \<^verbatim>\<open>except ValueError\<close>\<close>
  "claim_int lib v =
     (case json_int lib v of
        Inl e \<Rightarrow> if e = ValueError then Inl JWTClaimsError else Inl e
      | Inr n \<Rightarrow> Inr n)"

definition validate_iat :: "library \<Rightarrow> json_dict \<Rightarrow> exc + unit" where
  "validate_iat lib claims =
     (case map_of claims ''iat'' of
        None \<Rightarrow> Inr ()
      | Some v \<Rightarrow> (case claim_int lib v of Inl e \<Rightarrow> Inl e | Inr _ \<Rightarrow> Inr ()))"

definition validate_nbf :: "library \<Rightarrow> int \<Rightarrow> json_dict \<Rightarrow> exc + unit" where
  "validate_nbf lib now claims =
     (case map_of claims ''nbf'' of
        None \<Rightarrow> Inr ()
      | Some v \<Rightarrow>
          (case claim_int lib v of
             Inl e \<Rightarrow> Inl e
           | Inr nbf \<Rightarrow> if nbf > timegm now then Inl JWTClaimsError else Inr ()))"

definition validate_exp :: "library \<Rightarrow> int \<Rightarrow> json_dict \<Rightarrow> exc + unit" where
  "validate_exp lib now claims =
     (case map_of claims ''exp'' of
        None \<Rightarrow> Inr ()
      | Some v \<Rightarrow>
          (case claim_int lib v of
             Inl e \<Rightarrow> Inl e
           | Inr exp \<Rightarrow> if exp < timegm now then Inl ExpiredSignatureError else Inr ()))"

definition validate_aud :: "string option \<Rightarrow> json_dict \<Rightarrow> exc + unit" where
  \<comment> \<open>a token without the claim passes; the claim is a string or a list of strings\<close>
  "validate_aud audience claims =
     (case map_of claims ''aud'' of
        None \<Rightarrow> Inr ()
      | Some a \<Rightarrow>
          (case (case a of JStr s \<Rightarrow> Some [JStr s] | JArray xs \<Rightarrow> Some xs | _ \<Rightarrow> None) of
             None \<Rightarrow> Inl JWTClaimsError
           | Some audience_claims \<Rightarrow>
               if \<not> list_all is_jstr audience_claims then Inl JWTClaimsError
               else if (case audience of
                          None \<Rightarrow> False
                        | Some x \<Rightarrow> JStr x \<in> set audience_claims)
               then Inr () else Inl JWTClaimsError))"

definition validate_iss :: "string option \<Rightarrow> json_dict \<Rightarrow> exc + unit" where
  "validate_iss issuer claims =
     (case issuer of
        None \<Rightarrow> Inr ()
      | Some i \<Rightarrow> if map_of claims ''iss'' = Some (JStr i) then Inr () else Inl JWTClaimsError)"

definition validate_sub :: "json_dict \<Rightarrow> exc + unit" where
  "validate_sub claims =
     (case map_of claims ''sub'' of
        None \<Rightarrow> Inr ()
      | Some v \<Rightarrow> if is_jstr v then Inr () else Inl JWTClaimsError)"

definition validate_jti :: "json_dict \<Rightarrow> exc + unit" where
  "validate_jti claims =
     (case map_of claims ''jti'' of
        None \<Rightarrow> Inr ()
      | Some v \<Rightarrow> if is_jstr v then Inr () else Inl JWTClaimsError)"

definition validate_at_hash :: "json_dict \<Rightarrow> exc + unit" where
  \<comment> \<open>no access token is passed to \<^verbatim>\<open>jwt.decode\<close>\<close>
  "validate_at_hash claims =
     (case map_of claims ''at_hash'' of None \<Rightarrow> Inr () | Some _ \<Rightarrow> Inl JWTClaimsError)"

fun first_error :: "(exc + unit) list \<Rightarrow> exc + unit" where
  "first_error [] = Inr ()"
| "first_error (Inl e # _) = Inl e"
| "first_error (Inr _ # rs) = first_error rs"

definition validate_claims ::
  "library \<Rightarrow> int \<Rightarrow> json_dict \<Rightarrow> string option \<Rightarrow> string option \<Rightarrow> bool \<Rightarrow> exc + unit" where
  "validate_claims lib now claims audience issuer verify_aud =
     first_error
       [validate_iat lib claims,
        validate_nbf lib now claims,
        validate_exp lib now claims,
        (if verify_aud then validate_aud audience claims else Inr ()),
        validate_iss issuer claims,
        validate_sub claims,
        validate_jti claims,
        validate_at_hash claims]"

fun jwt_decode ::
  "library \<Rightarrow> int \<Rightarrow> token \<Rightarrow> string \<Rightarrow> string list \<Rightarrow> string option \<Rightarrow> string option
     \<Rightarrow> bool \<Rightarrow> exc + json_dict" where
  "jwt_decode lib now (Malformed _) key algorithms audience issuer verify_aud = Inl JWTError"
| "jwt_decode lib now (Jws alg p sig) key algorithms audience issuer verify_aud =
     (if alg = [] \<or> alg \<notin> set algorithms then Inl JWTError
      else (case verify_with lib alg key p sig of
              Inl e \<Rightarrow> Inl e
            | Inr matches \<Rightarrow>
                if \<not> matches then Inl JWTError
                else (case p of
                        NotAnObject _ \<Rightarrow> Inl JWTError
                      | Claims claims \<Rightarrow>
                          (case validate_claims lib now claims audience issuer verify_aud of
                             Inl e \<Rightarrow> Inl e
                           | Inr _ \<Rightarrow> Inr claims))))"


section \<open>JWT helpers (\<^verbatim>\<open>app/utils/security.py\<close>)\<close>

text \<open>
  \<^verbatim>\<open>create_access_token\<close> receives a reference to the caller's dict and reads the
  clock. It returns the heap it leaves behind together with the token or the exception.
\<close>

definition create_access_token ::
  "library \<Rightarrow> settings \<Rightarrow> int \<Rightarrow> heap \<Rightarrow> nat \<Rightarrow> int option \<Rightarrow> heap \<times> (exc + token)" where
  "create_access_token lib st clock h data expires_delta =
     (case heap_copy h data of (h1, to_encode) \<Rightarrow>
        (case (case map_of (h1 ! to_encode) ''sub'' of
                 Some v \<Rightarrow>
                   (case py_str v of
                      Inl e \<Rightarrow> Inl e
                    | Inr s \<Rightarrow> Inr (heap_setitem h1 to_encode ''sub'' (PyStr s)))
               | None \<Rightarrow> Inr h1) of
           Inl e \<Rightarrow> (h1, Inl e)
         | Inr h2 \<Rightarrow>
             (case utc_now clock of
                Inl e \<Rightarrow> (h2, Inl e)
              | Inr now \<Rightarrow>
                  (case (case expires_delta of
                           None \<Rightarrow> timedelta_minutes (ACCESS_TOKEN_EXPIRE_MINUTES st)
                         | Some d \<Rightarrow> Inr d) of
                     Inl e \<Rightarrow> (h2, Inl e)
                   | Inr delta \<Rightarrow>
                       (case datetime_add now delta of
                          Inl e \<Rightarrow> (h2, Inl e)
                        | Inr expire \<Rightarrow>
                            (let h3 = heap_setitem h2 to_encode ''exp'' (PyDatetime expire);
                                 h4 = heap_setitem h3 to_encode ''iat'' (PyDatetime now);
                                 h5 = (if truthy (JWT_ISSUER st)
                                       then heap_setitem h4 to_encode ''iss''
                                              (PyStr (the (JWT_ISSUER st)))
                                       else h4);
                                 h6 = (if truthy (JWT_AUDIENCE st)
                                       then heap_setitem h5 to_encode ''aud''
                                              (PyStr (the (JWT_AUDIENCE st)))
                                       else h5)
                             in jwt_encode lib h6 to_encode (SECRET_KEY st)
                                  (ALGORITHM st)))))))"

text \<open>\<^verbatim>\<open>decode_access_token\<close> reads the clock (\<open>now\<close>) inside \<^verbatim>\<open>jwt.decode\<close>.\<close>

definition decode_access_token ::
  "library \<Rightarrow> settings \<Rightarrow> int \<Rightarrow> token \<Rightarrow> exc + json_dict" where
  "decode_access_token lib st now tok =
     (let verify_aud = truthy (JWT_AUDIENCE st)
      in (case jwt_decode lib now tok (SECRET_KEY st) [ALGORITHM st]
                 (if truthy (JWT_AUDIENCE st) then JWT_AUDIENCE st else None)
                 (if truthy (JWT_ISSUER st) then JWT_ISSUER st else None)
                 verify_aud of
            Inl e \<Rightarrow>
              (if e = ExpiredSignatureError then Inl (TokenDecodeError ''token expired'')
               else if is_JWTError e then Inl (TokenDecodeError ''invalid token or claims'')
               else Inl e)
          | Inr payload \<Rightarrow> Inr payload))"

section \<open>Credential verification\<close>

lemma verify_password_cases:
  "verify_password pwd_context s stored legacy =
     (if ctx_verify pwd_context s stored = Inr True
      then (case ctx_needs_update pwd_context stored of
              Inl e \<Rightarrow> Inl e | Inr r \<Rightarrow> Inr (True, r))
      else (case legacy of
              None \<Rightarrow> Inr (False, False)
            | Some f \<Rightarrow> if f s stored = Inr True then Inr (True, True) else Inr (False, False)))"
proof (cases "ctx_verify pwd_context s stored")
  case (Inl e)
  then show ?thesis
    by (cases legacy; cases "the legacy s stored") (auto simp: verify_password_def)
next
  case (Inr v)
  then show ?thesis
    by (cases legacy; cases "the legacy s stored") (auto simp: verify_password_def)
qed

text \<open>
  C2. Against the hashing scheme of the spec, with any digest function, any salt and any
  secret: hashing succeeds, and verifying the secret against the fresh hash gives
  \<open>(True, False)\<close>, whatever legacy check is passed along. The hash carries the
  scheme's current work factor, so it does not need an update.
\<close>

theorem verify_after_hash:
  "\<exists>h. hash_password (scheme_context sc) salt s = Inr h
      \<and> verify_password (scheme_context sc) s h legacy = Inr (True, False)"
  by (simp add: hash_password_def verify_password_def scheme_context_def)

text \<open>
  C4. When the current scheme does not accept the stored value (it returns \<open>False\<close> or
  raises) and a legacy check is supplied, the outcome is \<open>(True, True)\<close> if the legacy
  check returns true and \<open>(False, False)\<close> if it returns false. The rehash flag after a
  legacy match does not consult the scheme.
\<close>

theorem verify_password_legacy:
  assumes "ctx_verify pwd_context s stored \<noteq> Inr True"
  shows "(legacy s stored = Inr True \<longrightarrow>
            verify_password pwd_context s stored (Some legacy) = Inr (True, True))
       \<and> (legacy s stored = Inr False \<longrightarrow>
            verify_password pwd_context s stored (Some legacy) = Inr (False, False))"
proof -
  have "(case ctx_verify pwd_context s stored of Inl _ \<Rightarrow> False | Inr v \<Rightarrow> v) = False"
    using assms by (cases "ctx_verify pwd_context s stored") auto
  then show ?thesis
    by (simp add: verify_password_def)
qed

text \<open>The legacy example of the test suite, with a matching and a wrong secret.\<close>

theorem verify_password_legacy_witness:
  "verify_password (scheme_context demo_scheme) ''old-password''
       (Opaque ''LEGACY:old-password'') (Some legacy_verify_example) = Inr (True, True)
   \<and> verify_password (scheme_context demo_scheme) ''guess''
       (Opaque ''LEGACY:old-password'') (Some legacy_verify_example) = Inr (False, False)"
proof -
  have c: "ctx_verify (scheme_context demo_scheme) p (Opaque ''LEGACY:old-password'') \<noteq> Inr True"
    for p
    by (simp add: scheme_context_def)
  have m: "legacy_verify_example ''old-password'' (Opaque ''LEGACY:old-password'') = Inr True"
    by (simp add: legacy_verify_example_def)
  have n: "legacy_verify_example ''guess'' (Opaque ''LEGACY:old-password'') = Inr False"
    by (simp add: legacy_verify_example_def)
  show ?thesis
    using verify_password_legacy [OF c [of "''old-password''"], of legacy_verify_example]
      verify_password_legacy [OF c [of "''guess''"], of legacy_verify_example] m n
    by simp
qed

text \<open>
  The call of \<^verbatim>\<open>needs_update\<close> is the only one outside a \<^verbatim>\<open>try\<close>, and it is made on
  a stored value the scheme has just verified. The scheme of the spec returns there: it
  reads the parameters of an encoding, and only an encoding verifies.
\<close>

lemma scheme_needs_update_returns:
  "ctx_verify (scheme_context sc) s stored = Inr True
     \<Longrightarrow> \<exists>b. ctx_needs_update (scheme_context sc) stored = Inr b"
  by (cases stored) (simp_all add: scheme_context_def)

text \<open>
  C5. Against the hashing scheme of the spec, \<^verbatim>\<open>verify_password\<close> returns a pair for
  every secret, every stored value and every legacy check, also one that raises: it
  never raises. For any \<^verbatim>\<open>pwd_context\<close> at all, an exception of \<^verbatim>\<open>verify\<close> has the
  effect of \<open>False\<close> and so has an exception of the legacy check, and the only exception
  that can leave \<^verbatim>\<open>verify_password\<close> is one raised by \<^verbatim>\<open>needs_update\<close> on a stored
  value that \<^verbatim>\<open>verify\<close> has accepted.
\<close>

theorem verify_password_never_raises:
  fixes sc :: hashing_scheme and stored :: stored_secret
    and pwd_context :: "'h crypt_context" and stored' :: 'h
  shows "(\<exists>valid rehash. verify_password (scheme_context sc) s stored legacy = Inr (valid, rehash))
       \<and> (verify_password pwd_context s' stored' legacy' = Inl e \<longleftrightarrow>
            ctx_verify pwd_context s' stored' = Inr True
            \<and> ctx_needs_update pwd_context stored' = Inl e)
       \<and> ((\<exists>x. ctx_verify pwd_context s' stored' = Inl x) \<longrightarrow>
            verify_password pwd_context s' stored' legacy' =
            verify_password (pwd_context\<lparr>ctx_verify := \<lambda>p h. Inr False\<rparr>) s' stored' legacy')
       \<and> (\<forall>f. legacy' = Some f \<and> (\<exists>x. f s' stored' = Inl x) \<longrightarrow>
            verify_password pwd_context s' stored' legacy' =
            verify_password pwd_context s' stored' (Some (\<lambda>p h. Inr False)))"
proof (intro conjI)
  show "\<exists>valid rehash. verify_password (scheme_context sc) s stored legacy = Inr (valid, rehash)"
  proof (cases "ctx_verify (scheme_context sc) s stored = Inr True")
    case True
    then obtain b where "ctx_needs_update (scheme_context sc) stored = Inr b"
      using scheme_needs_update_returns by blast
    with True have "verify_password (scheme_context sc) s stored legacy = Inr (True, b)"
      by (simp add: verify_password_cases)
    then show ?thesis
      by blast
  next
    case False
    then have "verify_password (scheme_context sc) s stored legacy = Inr (True, True)
             \<or> verify_password (scheme_context sc) s stored legacy = Inr (False, False)"
      by (simp add: verify_password_cases split: option.splits)
    then show ?thesis
      by blast
  qed
  show "verify_password pwd_context s' stored' legacy' = Inl e \<longleftrightarrow>
          ctx_verify pwd_context s' stored' = Inr True
          \<and> ctx_needs_update pwd_context stored' = Inl e"
    by (auto simp: verify_password_cases split: sum.splits option.splits if_splits)
  show "(\<exists>x. ctx_verify pwd_context s' stored' = Inl x) \<longrightarrow>
          verify_password pwd_context s' stored' legacy' =
          verify_password (pwd_context\<lparr>ctx_verify := \<lambda>p h. Inr False\<rparr>) s' stored' legacy'"
    by (auto simp: verify_password_cases)
  show "\<forall>f. legacy' = Some f \<and> (\<exists>x. f s' stored' = Inl x) \<longrightarrow>
          verify_password pwd_context s' stored' legacy' =
          verify_password pwd_context s' stored' (Some (\<lambda>p h. Inr False))"
    by (auto simp: verify_password_cases)
qed

text \<open>
  A verified hash, and a value the scheme raises on, each with a legacy check that
  raises.
\<close>

theorem verify_password_never_raises_witness:
  "verify_password (scheme_context demo_scheme) ''pw'' (Encoded 12 ''na'' ''na|pw'')
       (Some (\<lambda>p h. Inl (OtherError ''legacy store down''))) = Inr (True, False)
   \<and> verify_password (scheme_context demo_scheme) ''pw'' (Opaque ''not a hash'')
       (Some (\<lambda>p h. Inl (OtherError ''legacy store down'')))
     = verify_password ((scheme_context demo_scheme)\<lparr>ctx_verify := \<lambda>p h. Inr False\<rparr>) ''pw''
         (Opaque ''not a hash'') (Some (\<lambda>p h. Inr False))
   \<and> verify_password (scheme_context demo_scheme) ''pw'' (Opaque ''not a hash'')
       (Some (\<lambda>p h. Inl (OtherError ''legacy store down''))) = Inr (False, False)"
proof -
  let ?ctx = "scheme_context demo_scheme"
  let ?f = "\<lambda>(p::string) (h::stored_secret). (Inl (OtherError ''legacy store down'') :: exc + bool)"
  let ?no = "\<lambda>(p::string) (h::stored_secret). (Inr False :: exc + bool)"
  note t = verify_password_never_raises
             [where sc = demo_scheme and s = "''pw''" and stored = "Encoded 12 ''na'' ''na|pw''"
                and legacy = "Some ?f" and pwd_context = ?ctx and s' = "''pw''"
                and stored' = "Opaque ''not a hash''" and legacy' = "Some ?f"]
  note u = verify_password_never_raises
             [where sc = demo_scheme and s = "''pw''" and stored = "Encoded 12 ''na'' ''na|pw''"
                and legacy = "Some ?f" and pwd_context = "?ctx\<lparr>ctx_verify := \<lambda>p h. Inr False\<rparr>"
                and s' = "''pw''" and stored' = "Opaque ''not a hash''" and legacy' = "Some ?f"]
  have raises: "\<exists>x. ctx_verify ?ctx ''pw'' (Opaque ''not a hash'') = Inl x"
    by (simp add: scheme_context_def)
  have legacy_raises: "\<exists>x. ?f ''pw'' (Opaque ''not a hash'') = Inl x"
    by simp
  from t obtain valid rehash where
    r: "verify_password ?ctx ''pw'' (Encoded 12 ''na'' ''na|pw'') (Some ?f) = Inr (valid, rehash)"
    by blast
  have "verify_password ?ctx ''pw'' (Encoded 12 ''na'' ''na|pw'') (Some ?f) = Inr (True, False)"
    using r by (simp add: verify_password_def scheme_context_def demo_scheme_def)
  moreover have a: "verify_password ?ctx ''pw'' (Opaque ''not a hash'') (Some ?f)
      = verify_password (?ctx\<lparr>ctx_verify := \<lambda>p h. Inr False\<rparr>) ''pw'' (Opaque ''not a hash'')
          (Some ?f)"
    using t raises by blast
  moreover have b: "verify_password (?ctx\<lparr>ctx_verify := \<lambda>p h. Inr False\<rparr>) ''pw''
        (Opaque ''not a hash'') (Some ?f)
      = verify_password (?ctx\<lparr>ctx_verify := \<lambda>p h. Inr False\<rparr>) ''pw'' (Opaque ''not a hash'')
          (Some ?no)"
    using u legacy_raises by blast
  moreover have "verify_password (?ctx\<lparr>ctx_verify := \<lambda>p h. Inr False\<rparr>) ''pw''
        (Opaque ''not a hash'') (Some ?no) = Inr (False, False)"
    by (simp add: verify_password_def)
  ultimately show ?thesis
    by simp
qed

text \<open>
  For any other secret the outcome against a fresh hash is decided by the digest alone:
  the secret is rejected exactly when its digest under the stored salt differs.
\<close>

lemma verify_password_other_secret:
  "verify_password (scheme_context sc) s1
      (Encoded (work_factor sc) salt (digest sc (work_factor sc) salt s2)) None
     = (if digest sc (work_factor sc) salt s1 = digest sc (work_factor sc) salt s2
        then Inr (True, False) else Inr (False, False))"
  by (simp add: verify_password_def scheme_context_def)

section \<open>The backend selector\<close>

text \<open>
  C8. Without a backend argument, \<^verbatim>\<open>authenticate\<close> is the database backend. It returns
  the user exactly when the lookup by email finds the user and the password verifies
  against the stored hash; an unknown email and a wrong password give the same
  \<open>Inr None\<close>.
\<close>

theorem authenticate_default_backend:
  "authenticate pwd_context db c None = database_authenticate pwd_context db c
   \<and> (authenticate pwd_context db c None = Inr (Some u) \<longleftrightarrow>
        get_user_by_email db (login_email c) = Some u
        \<and> (\<exists>r. verify_password pwd_context (login_password c) (hashed_password u) None
                 = Inr (True, r)))
   \<and> (get_user_by_email db (login_email c) = None \<longrightarrow>
        authenticate pwd_context db c None = Inr None)
   \<and> (get_user_by_email db (login_email c) = Some u
        \<and> verify_password pwd_context (login_password c) (hashed_password u) None
            = Inr (False, r) \<longrightarrow>
        authenticate pwd_context db c None = Inr None)"
  by (auto simp: authenticate_def database_authenticate_def split: option.splits sum.splits)

text \<open>One user in the table: the right password, a wrong password, an unknown email.\<close>

theorem authenticate_default_backend_witness:
  "authenticate (scheme_context demo_scheme)
      [\<lparr> user_id = 1, email = ''alice@example.com'',
         hashed_password = Encoded 12 ''na'' ''na|wonderland'', is_active = True \<rparr>]
      \<lparr> login_email = ''alice@example.com'', login_password = ''wonderland'' \<rparr> None
    = Inr (Some \<lparr> user_id = 1, email = ''alice@example.com'',
         hashed_password = Encoded 12 ''na'' ''na|wonderland'', is_active = True \<rparr>)
   \<and> authenticate (scheme_context demo_scheme)
      [\<lparr> user_id = 1, email = ''alice@example.com'',
         hashed_password = Encoded 12 ''na'' ''na|wonderland'', is_active = True \<rparr>]
      \<lparr> login_email = ''alice@example.com'', login_password = ''looking-glass'' \<rparr> None
    = Inr None
   \<and> authenticate (scheme_context demo_scheme)
      [\<lparr> user_id = 1, email = ''alice@example.com'',
         hashed_password = Encoded 12 ''na'' ''na|wonderland'', is_active = True \<rparr>]
      \<lparr> login_email = ''bob@example.com'', login_password = ''wonderland'' \<rparr> None
    = Inr None"
proof -
  let ?u = "\<lparr> user_id = 1, email = ''alice@example.com'',
         hashed_password = Encoded 12 ''na'' ''na|wonderland'', is_active = True \<rparr>"
  let ?ctx = "scheme_context demo_scheme"
  have g: "get_user_by_email [?u] ''alice@example.com'' = Some ?u"
    by (simp add: get_user_by_email_def)
  have g': "get_user_by_email [?u] ''bob@example.com'' = None"
    by (simp add: get_user_by_email_def)
  have v: "verify_password ?ctx ''wonderland'' (Encoded 12 ''na'' ''na|wonderland'') None = Inr (True, False)"
    by (simp add: verify_password_def scheme_context_def demo_scheme_def)
  have v': "verify_password ?ctx ''looking-glass'' (Encoded 12 ''na'' ''na|wonderland'') None = Inr (False, False)"
    by (simp add: verify_password_def scheme_context_def demo_scheme_def)
  let ?ok = "\<lparr> login_email = ''alice@example.com'', login_password = ''wonderland'' \<rparr>"
  let ?bad = "\<lparr> login_email = ''alice@example.com'', login_password = ''looking-glass'' \<rparr>"
  let ?unknown = "\<lparr> login_email = ''bob@example.com'', login_password = ''wonderland'' \<rparr>"
  have "authenticate ?ctx [?u] ?ok None = Inr (Some ?u)"
    using authenticate_default_backend [of ?ctx "[?u]" ?ok ?u] g v by auto
  moreover have "authenticate ?ctx [?u] ?bad None = Inr None"
    using authenticate_default_backend [of ?ctx "[?u]" ?bad ?u False] g v' by auto
  moreover have "authenticate ?ctx [?u] ?unknown None = Inr None"
    using authenticate_default_backend [of ?ctx "[?u]" ?unknown ?u] g' by auto
  ultimately show ?thesis
    by blast
qed

section \<open>Keys, integers and time\<close>

text \<open>The default secret key is a plain secret.\<close>

lemma plain_default_secret: "plain_secret (SECRET_KEY default_settings)"
  by (simp add: plain_secret_def default_settings_def)

text \<open>Timestamps are far below the limit on the decimal digits of an integer.\<close>

lemma int_str_ok_small: "\<bar>i\<bar> < 10 ^ 18 \<Longrightarrow> int_str_ok i"
proof -
  assume a: "\<bar>i\<bar> < 10 ^ 18"
  have "(10::int) ^ 18 \<le> 10 ^ int_max_str_digits"
    by (rule power_increasing) (simp_all add: int_max_str_digits_def)
  with a show ?thesis
    unfolding int_str_ok_def by linarith
qed

lemma int_str_ok_datetime:
  assumes "datetime_min \<le> t" "t \<le> datetime_max"
  shows "int_str_ok (timegm t)"
proof -
  have "\<bar>timegm t\<bar> < 10 ^ 18"
    using assms by (simp add: timegm_def datetime_min_def datetime_max_def)
  then show ?thesis
    by (rule int_str_ok_small)
qed




lemma datetime_add_Inr:
  "datetime_add t d = Inr r \<Longrightarrow> r = t + d \<and> datetime_min \<le> r \<and> r \<le> datetime_max"
  by (auto simp: datetime_add_def split: if_splits)

lemma utc_now_Inr:
  "utc_now clock = Inr now \<Longrightarrow> now = clock \<and> datetime_min \<le> now \<and> now \<le> datetime_max"
  by (auto simp: utc_now_def split: if_splits)

section \<open>Dicts and the heap\<close>

lemma map_of_setitem: "map_of (setitem d k v) = (map_of d)(k \<mapsto> v)"
  by (induction d k v rule: setitem.induct) auto

lemma map_of_convert_time_claim:
  "map_of (convert_time_claim c d) k =
     (if k = c then (case map_of d c of Some (PyDatetime t) \<Rightarrow> Some (PyInt (timegm t)) | x \<Rightarrow> x)
      else map_of d k)"
  by (auto simp: convert_time_claim_def map_of_setitem split: option.splits py_value.splits)

lemma heap_setitem_last: "heap_setitem (h @ [d]) (length h) k v = h @ [setitem d k v]"
  by (simp add: heap_setitem_def)

text \<open>
  The heap steps of \<^verbatim>\<open>create_access_token\<close> all act on the dict allocated by the copy,
  the last cell of the heap. Read on that cell alone, the function is:
\<close>

lemma create_access_token_unfold:
  "create_access_token lib st clock h data expires_delta =
     (case (case map_of (h ! data) ''sub'' of
              Some v \<Rightarrow>
                (case py_str v of
                   Inl e \<Rightarrow> Inl e
                 | Inr s \<Rightarrow> Inr (setitem (h ! data) ''sub'' (PyStr s)))
            | None \<Rightarrow> Inr (h ! data)) of
        Inl e \<Rightarrow> (h @ [h ! data], Inl e)
      | Inr d2 \<Rightarrow>
          (case utc_now clock of
             Inl e \<Rightarrow> (h @ [d2], Inl e)
           | Inr now \<Rightarrow>
               (case (case expires_delta of
                        None \<Rightarrow> timedelta_minutes (ACCESS_TOKEN_EXPIRE_MINUTES st)
                      | Some d \<Rightarrow> Inr d) of
                  Inl e \<Rightarrow> (h @ [d2], Inl e)
                | Inr delta \<Rightarrow>
                    (case datetime_add now delta of
                       Inl e \<Rightarrow> (h @ [d2], Inl e)
                     | Inr expire \<Rightarrow>
                         (let d4 = setitem (setitem d2 ''exp'' (PyDatetime expire)) ''iat''
                                     (PyDatetime now);
                              d5 = (if truthy (JWT_ISSUER st)
                                    then setitem d4 ''iss'' (PyStr (the (JWT_ISSUER st)))
                                    else d4);
                              d6 = (if truthy (JWT_AUDIENCE st)
                                    then setitem d5 ''aud'' (PyStr (the (JWT_AUDIENCE st)))
                                    else d5);
                              d7 = fold convert_time_claim [''exp'', ''iat'', ''nbf''] d6
                          in (h @ [d7],
                              jws_sign lib d7 (SECRET_KEY st) (ALGORITHM st)))))))"
  by (simp add: create_access_token_def heap_copy_def heap_setitem_last jwt_encode_def Let_def
      split: option.splits sum.splits)

lemma create_access_token_heap:
  "\<exists>d. fst (create_access_token lib st clock h data expires_delta) = h @ [d]"
  by (simp add: create_access_token_unfold Let_def split: option.splits sum.splits)

text \<open>
  C9. The call leaves the caller's dict as it was. The heap after the call is the heap
  before it with one more dict, the copy: every dict that existed before the call,
  the caller's among them, has the entries it had, whether the call returns a token or
  raises. The subject coercion, the standard claims, issuer and audience, and the
  library's conversion of the time claims are all written to the copy.
\<close>

theorem caller_claims_unchanged:
  assumes "data < length h"
  shows "fst (create_access_token lib st now h data expires_delta) ! data = h ! data
       \<and> take (length h) (fst (create_access_token lib st now h data expires_delta)) = h
       \<and> length (fst (create_access_token lib st now h data expires_delta)) = Suc (length h)"
proof -
  obtain d where "fst (create_access_token lib st now h data expires_delta) = h @ [d]"
    using create_access_token_heap by blast
  with assms show ?thesis
    by (simp add: nth_append)
qed

text \<open>A caller's dict with a subject and an expiry of its own, after the call.\<close>

theorem caller_claims_unchanged_witness:
  "\<forall>lib.
     fst (create_access_token lib default_settings 1793707200600000
          [[(''sub'', PyInt 42), (''exp'', PyInt 0)]] 0 None) ! 0
       = [(''sub'', PyInt 42), (''exp'', PyInt 0)]
     \<and> length (fst (create_access_token lib default_settings 1793707200600000
          [[(''sub'', PyInt 42), (''exp'', PyInt 0)]] 0 None)) = 2"
proof
  fix lib :: library
  show "fst (create_access_token lib default_settings 1793707200600000
          [[(''sub'', PyInt 42), (''exp'', PyInt 0)]] 0 None) ! 0
       = [(''sub'', PyInt 42), (''exp'', PyInt 0)]
     \<and> length (fst (create_access_token lib default_settings 1793707200600000
          [[(''sub'', PyInt 42), (''exp'', PyInt 0)]] 0 None)) = 2"
    using caller_claims_unchanged
            [where data = 0 and h = "[[(''sub'', PyInt 42), (''exp'', PyInt 0)]]" and lib = lib
               and st = default_settings and now = 1793707200600000 and expires_delta = None]
    by simp
qed

section \<open>Serialisation\<close>

text \<open>
  The payload of a token has the keys of the dict that was signed, each with the JSON
  image of its value; signing succeeds only if every value has one.
\<close>

lemma map_of_dumps_keys:
  "dumps_keys d ks = Inr js \<Longrightarrow>
     map_of js k =
       (if k \<in> set ks
        then (case map_of d k of
                None \<Rightarrow> None
              | Some v \<Rightarrow> (case json_value_of v of Inl e \<Rightarrow> None | Inr j \<Rightarrow> Some j))
        else None)"
proof (induction ks arbitrary: js)
  case Nil
  then show ?case by simp
next
  case (Cons a ks)
  then show ?case
    by (auto split: option.splits sum.splits if_splits)
qed


lemma map_of_json_dumps:
  assumes "json_dumps d = Inr js"
  shows "map_of js k =
           (case map_of d k of
              None \<Rightarrow> None
            | Some v \<Rightarrow> (case json_value_of v of Inl e \<Rightarrow> None | Inr j \<Rightarrow> Some j))"
proof -
  have "k \<in> set (map fst d) \<longleftrightarrow> map_of d k \<noteq> None"
    using map_of_eq_None_iff [of d k] by auto
  then show ?thesis
    using map_of_dumps_keys [of d "map fst d" js k] assms
    by (auto simp: json_dumps_def split: option.splits)
qed


lemma jws_sign_Inr:
  "jws_sign lib claims key alg = Inr tok \<Longrightarrow>
     \<exists>p sig. json_dumps claims = Inr p \<and> tok = Jws alg (Claims p) sig"
  by (auto simp: jws_sign_def split: if_splits sum.splits option.splits)

section \<open>The claims of an issued token\<close>

lemmas issue_simps =
  create_access_token_unfold default_settings_def truthy_def utc_now_def timedelta_minutes_def
  datetime_add_def datetime_min_def datetime_max_def convert_time_claim_def timegm_def
  jws_sign_def json_dumps_def alg_supported_def sign_with_def plain_secret_def
  ALGORITHMS_HMAC_def int_str_ok_small str_int_def str_nat.simps Let_def

text \<open>
  The dict handed to the signing step, entry by entry, when the subject can be coerced
  and the timestamps are representable.
\<close>

lemma create_access_token_claims:
  assumes s: "\<forall>v. map_of (h ! data) ''sub'' = Some v \<longrightarrow> (\<exists>s. py_str v = Inr s)"
    and c: "utc_now clock = Inr now"
    and d: "(case expires_delta of
                 None \<Rightarrow> timedelta_minutes (ACCESS_TOKEN_EXPIRE_MINUTES st)
               | Some d \<Rightarrow> Inr d) = Inr delta"
    and e: "datetime_add now delta = Inr expire"
  shows "\<exists>claims.
           create_access_token lib st clock h data expires_delta
             = (h @ [claims], jws_sign lib claims (SECRET_KEY st) (ALGORITHM st))
         \<and> (\<forall>k. map_of claims k =
               (if k = ''nbf'' then
                  (case map_of (h ! data) ''nbf'' of
                     Some (PyDatetime t) \<Rightarrow> Some (PyInt (timegm t)) | x \<Rightarrow> x)
                else if k = ''iat'' then Some (PyInt (timegm now))
                else if k = ''exp'' then Some (PyInt (timegm expire))
                else if k = ''aud'' \<and> truthy (JWT_AUDIENCE st)
                  then Some (PyStr (the (JWT_AUDIENCE st)))
                else if k = ''iss'' \<and> truthy (JWT_ISSUER st)
                  then Some (PyStr (the (JWT_ISSUER st)))
                else if k = ''sub''
                  then (case map_of (h ! data) ''sub'' of
                          None \<Rightarrow> None
                        | Some v \<Rightarrow> (case py_str v of Inl x \<Rightarrow> None | Inr s \<Rightarrow> Some (PyStr s)))
                else map_of (h ! data) k))"
proof (cases "map_of (h ! data) ''sub''")
  case None
  then show ?thesis
    using c d e
    by (auto simp: create_access_token_unfold Let_def map_of_convert_time_claim map_of_setitem
          split: option.splits py_value.splits)
next
  case (Some v)
  with s obtain x where "py_str v = Inr x"
    by blast
  with Some show ?thesis
    using c d e
    by (auto simp: create_access_token_unfold Let_def map_of_convert_time_claim map_of_setitem
          split: option.splits py_value.splits)
qed

lemma create_access_token_Inr:
  assumes "snd (create_access_token lib st clock h data expires_delta) = Inr tok"
  obtains delta expire where
    "\<forall>v. map_of (h ! data) ''sub'' = Some v \<longrightarrow> (\<exists>s. py_str v = Inr s)"
    "utc_now clock = Inr clock"
    "(case expires_delta of
        None \<Rightarrow> timedelta_minutes (ACCESS_TOKEN_EXPIRE_MINUTES st)
      | Some d \<Rightarrow> Inr d) = Inr delta"
    "datetime_add clock delta = Inr expire"
proof -
  let ?td = "(case expires_delta of
                None \<Rightarrow> timedelta_minutes (ACCESS_TOKEN_EXPIRE_MINUTES st)
              | Some d \<Rightarrow> Inr d)"
  have s: "\<forall>v. map_of (h ! data) ''sub'' = Some v \<longrightarrow> (\<exists>s. py_str v = Inr s)"
  proof (intro allI impI)
    fix v
    assume "map_of (h ! data) ''sub'' = Some v"
    with assms show "\<exists>s. py_str v = Inr s"
      by (cases "py_str v") (auto simp: create_access_token_unfold)
  qed
  obtain d2 where d2:
    "(case map_of (h ! data) ''sub'' of
        Some v \<Rightarrow>
          (case py_str v of
             Inl e \<Rightarrow> Inl e
           | Inr s \<Rightarrow> Inr (setitem (h ! data) ''sub'' (PyStr s)))
      | None \<Rightarrow> Inr (h ! data)) = Inr d2"
    using s by (cases "map_of (h ! data) ''sub''") auto
  have c: "utc_now clock = Inr clock"
    using assms d2
    by (cases "utc_now clock")
       (auto simp: create_access_token_unfold utc_now_def split: if_splits)
  obtain delta where d: "?td = Inr delta"
    using assms d2 c by (cases ?td) (auto simp: create_access_token_unfold Let_def)
  obtain expire where "datetime_add clock delta = Inr expire"
    using assms d2 c d
    by (cases "datetime_add clock delta") (auto simp: create_access_token_unfold Let_def)
  with s c d that show thesis
    by blast
qed

text \<open>
  C10. Whatever the caller's dict holds under \<^verbatim>\<open>exp\<close> and \<^verbatim>\<open>iat\<close>, an issued token
  carries the service's own timestamps: \<^verbatim>\<open>iat\<close> is the clock reading and \<^verbatim>\<open>exp\<close> the clock
  reading plus the TTL, both in whole seconds. When an issuer or an audience is
  configured, the token carries the configured value under \<^verbatim>\<open>iss\<close> or \<^verbatim>\<open>aud\<close>. None of
  these values depends on the caller's dict.
\<close>

theorem standard_claims_overwritten:
  assumes "snd (create_access_token lib st now h data expires_delta) = Inr tok"
  shows "\<exists>delta claims.
           (case expires_delta of
              None \<Rightarrow> timedelta_minutes (ACCESS_TOKEN_EXPIRE_MINUTES st)
            | Some d \<Rightarrow> Inr d) = Inr delta
         \<and> get_unverified_claims tok = Some claims
         \<and> map_of claims ''exp'' = Some (JInt (timegm (now + delta)))
         \<and> map_of claims ''iat'' = Some (JInt (timegm now))
         \<and> (truthy (JWT_ISSUER st) \<longrightarrow>
              map_of claims ''iss'' = Some (JStr (the (JWT_ISSUER st))))
         \<and> (truthy (JWT_AUDIENCE st) \<longrightarrow>
              map_of claims ''aud'' = Some (JStr (the (JWT_AUDIENCE st))))"
proof -
  from assms obtain delta expire where
    s: "\<forall>v. map_of (h ! data) ''sub'' = Some v \<longrightarrow> (\<exists>s. py_str v = Inr s)"
    and c: "utc_now now = Inr now"
    and d: "(case expires_delta of
           None \<Rightarrow> timedelta_minutes (ACCESS_TOKEN_EXPIRE_MINUTES st)
         | Some d \<Rightarrow> Inr d) = Inr delta"
    and e: "datetime_add now delta = Inr expire"
    by (rule create_access_token_Inr)
  from create_access_token_claims [OF s c d e, of lib] obtain to_encode where
    r: "create_access_token lib st now h data expires_delta
          = (h @ [to_encode], jws_sign lib to_encode (SECRET_KEY st) (ALGORITHM st))"
    and m: "\<And>k. map_of to_encode k =
               (if k = ''nbf'' then
                  (case map_of (h ! data) ''nbf'' of
                     Some (PyDatetime t) \<Rightarrow> Some (PyInt (timegm t)) | x \<Rightarrow> x)
                else if k = ''iat'' then Some (PyInt (timegm now))
                else if k = ''exp'' then Some (PyInt (timegm expire))
                else if k = ''aud'' \<and> truthy (JWT_AUDIENCE st)
                  then Some (PyStr (the (JWT_AUDIENCE st)))
                else if k = ''iss'' \<and> truthy (JWT_ISSUER st)
                  then Some (PyStr (the (JWT_ISSUER st)))
                else if k = ''sub''
                  then (case map_of (h ! data) ''sub'' of
                          None \<Rightarrow> None
                        | Some v \<Rightarrow> (case py_str v of Inl x \<Rightarrow> None | Inr s \<Rightarrow> Some (PyStr s)))
                else map_of (h ! data) k)"
    by blast
  from assms r have "jws_sign lib to_encode (SECRET_KEY st) (ALGORITHM st) = Inr tok"
    by simp
  then obtain claims sig where
    p: "json_dumps to_encode = Inr claims"
    and t: "tok = Jws (ALGORITHM st) (Claims claims) sig"
    using jws_sign_Inr by blast
  have x: "expire = now + delta" "datetime_min \<le> expire" "expire \<le> datetime_max"
    using datetime_add_Inr [OF e] by simp_all
  have n: "datetime_min \<le> now" "now \<le> datetime_max"
    using utc_now_Inr [OF c] by simp_all
  have ok: "int_str_ok (timegm expire)" "int_str_ok (timegm now)"
    using x n by (simp_all add: int_str_ok_datetime)
  have j: "\<And>k. map_of claims k =
           (case map_of to_encode k of
              None \<Rightarrow> None
            | Some v \<Rightarrow> (case json_value_of v of Inl e \<Rightarrow> None | Inr j \<Rightarrow> Some j))"
    using p by (rule map_of_json_dumps)
  show ?thesis
    using d t x(1) ok
    by (intro exI [of _ delta] exI [of _ claims]) (simp add: j m)
qed

text \<open>
  A caller asking for an expiry in the year 5138, an issue time of 0 and a foreign
  audience, with a TTL of one minute and an audience configured.
\<close>

theorem standard_claims_overwritten_witness:
  "\<forall>lib. \<exists>tok claims.
     snd (create_access_token lib (default_settings\<lparr>JWT_AUDIENCE := Some ''patients-api''\<rparr>)
            1793707200600000
            [[(''sub'', PyInt 7), (''exp'', PyInt 99999999999), (''iat'', PyInt 0),
              (''aud'', PyStr ''someone-else'')]] 0 (Some 60000000)) = Inr tok
     \<and> get_unverified_claims tok = Some claims
     \<and> map_of claims ''exp'' = Some (JInt 1793707260)
     \<and> map_of claims ''iat'' = Some (JInt 1793707200)
     \<and> map_of claims ''aud'' = Some (JStr ''patients-api'')"
proof
  fix lib :: library
  let ?st = "default_settings\<lparr>JWT_AUDIENCE := Some ''patients-api''\<rparr>"
  let ?d = "[(''sub'', PyInt 7), (''exp'', PyInt 99999999999), (''iat'', PyInt 0),
             (''aud'', PyStr ''someone-else'')]"
  let ?c = "[(''sub'', JStr ''7''), (''exp'', JInt 1793707260), (''iat'', JInt 1793707200),
             (''aud'', JStr ''patients-api'')]"
  let ?tok = "Jws ''HS256'' (Claims ?c)
                (Mac ''HS256'' ''change-me-in-prod-very-secret-and-long-string'' (Claims ?c))"
  have run: "snd (create_access_token lib ?st 1793707200600000 [?d] 0 (Some 60000000)) = Inr ?tok"
    by (simp add: issue_simps)
  from standard_claims_overwritten [OF run] obtain claims where
    "get_unverified_claims ?tok = Some claims"
    "map_of claims ''exp'' = Some (JInt (timegm (1793707200600000 + 60000000)))"
    "map_of claims ''iat'' = Some (JInt (timegm 1793707200600000))"
    "map_of claims ''aud'' = Some (JStr ''patients-api'')"
    by (auto simp: truthy_def default_settings_def)
  with run show "\<exists>tok claims.
     snd (create_access_token lib ?st 1793707200600000 [?d] 0 (Some 60000000)) = Inr tok
     \<and> get_unverified_claims tok = Some claims
     \<and> map_of claims ''exp'' = Some (JInt 1793707260)
     \<and> map_of claims ''iat'' = Some (JInt 1793707200)
     \<and> map_of claims ''aud'' = Some (JStr ''patients-api'')"
    by (intro exI [of _ ?tok] exI [of _ claims]) (simp add: timegm_def)
qed

section \<open>Issue, then validate\<close>

lemmas validate_simps =
  decode_access_token_def verify_with_def validate_claims_def validate_iat_def
  validate_nbf_def validate_exp_def validate_aud_def validate_iss_def validate_sub_def
  validate_jti_def validate_at_hash_def claim_int_def





section \<open>Validation failures\<close>

text \<open>
  With an HMAC algorithm and a plain secret, a token whose signature is not the MAC under
  the secret key is refused with \<^verbatim>\<open>TokenDecodeError\<close>, whatever algorithm its header names.
\<close>

lemma decode_access_token_bad_signature:
  assumes "ALGORITHM st \<in> set ALGORITHMS_HMAC" "plain_secret (SECRET_KEY st)"
    and "sig \<noteq> Mac (ALGORITHM st) (SECRET_KEY st) p"
  shows "decode_access_token lib st now (Jws alg p sig)
         = Inl (TokenDecodeError ''invalid token or claims'')"
  using assms by (simp add: decode_access_token_def verify_with_def)

text \<open>
  C3. Not every failure of \<^verbatim>\<open>decode_access_token\<close> is a \<^verbatim>\<open>TokenDecodeError\<close>. From
  the claims \<^verbatim>\<open>{'sub': 1, 'nbf': None}\<close> the service issues a token, correctly signed, and
  decoding that token raises \<^verbatim>\<open>TypeError\<close>: the library applies \<^verbatim>\<open>int\<close> to the null time
  claim and catches \<^verbatim>\<open>ValueError\<close> only, and \<^verbatim>\<open>decode_access_token\<close> catches the library's
  \<^verbatim>\<open>JWTError\<close> family only.
\<close>

theorem decode_access_token_type_error:
  "\<exists>tok. snd (create_access_token lib default_settings 1793707200600000
                [[(''sub'', PyInt 1), (''nbf'', PyNone)]] 0 None) = Inr tok
        \<and> decode_access_token lib default_settings 1793707200600000 tok = Inl TypeError"
  by (simp add: issue_simps validate_simps)

section \<open>Audience and issuer\<close>

lemma first_error_Inl: "Inl e \<in> set rs \<Longrightarrow> \<exists>e'. first_error rs = Inl e'"
  by (induction rs rule: first_error.induct) auto

lemma jwt_decode_claims_Inl:
  assumes "validate_claims lib now c audience issuer verify_aud = Inl e"
  shows "\<exists>e'. jwt_decode lib now (Jws alg (Claims c) sig) key algorithms audience issuer
                 verify_aud = Inl e'"
  using assms by (simp split: sum.splits)

lemma decode_access_token_Inl:
  assumes "\<exists>e. jwt_decode lib now tok (SECRET_KEY st) [ALGORITHM st]
                  (if truthy (JWT_AUDIENCE st) then JWT_AUDIENCE st else None)
                  (if truthy (JWT_ISSUER st) then JWT_ISSUER st else None)
                  (truthy (JWT_AUDIENCE st)) = Inl e"
  shows "\<exists>e. decode_access_token lib st now tok = Inl e"
  using assms by (auto simp: decode_access_token_def)

text \<open>
  With an audience configured, a token whose audience claim is neither the configured
  audience nor a list that contains it is refused, whatever else it carries.
\<close>

lemma audience_mismatch_rejected:
  assumes "truthy (JWT_AUDIENCE st)" "map_of c ''aud'' = Some v"
    "v \<noteq> JStr (the (JWT_AUDIENCE st))"
    "\<forall>xs. v = JArray xs \<longrightarrow> JStr (the (JWT_AUDIENCE st)) \<notin> set xs"
  shows "\<exists>e. decode_access_token lib st now (Jws alg (Claims c) sig) = Inl e"
proof -
  have "validate_aud (JWT_AUDIENCE st) c = Inl JWTClaimsError"
    using assms by (cases v) (auto simp: validate_aud_def truthy_def split: option.splits)
  then have "\<exists>e. validate_claims lib now c (JWT_AUDIENCE st)
                  (if truthy (JWT_ISSUER st) then JWT_ISSUER st else None) True = Inl e"
    unfolding validate_claims_def by (intro first_error_Inl [of JWTClaimsError]) simp
  then have "\<exists>e. jwt_decode lib now (Jws alg (Claims c) sig) (SECRET_KEY st) [ALGORITHM st]
                  (JWT_AUDIENCE st)
                  (if truthy (JWT_ISSUER st) then JWT_ISSUER st else None) True = Inl e"
    using jwt_decode_claims_Inl by blast
  then show ?thesis
    using assms(1) by (intro decode_access_token_Inl) simp
qed

text \<open>
  With no audience configured, whether a correctly signed token validates does not
  depend on its audience claim.
\<close>

lemma audience_unchecked_when_unconfigured:
  assumes "\<not> truthy (JWT_AUDIENCE st)" "ALGORITHM st \<in> set ALGORITHMS_HMAC"
    "plain_secret (SECRET_KEY st)"
  shows "(\<exists>p. decode_access_token lib st now
                (Jws (ALGORITHM st) (Claims (setitem c ''aud'' v))
                   (Mac (ALGORITHM st) (SECRET_KEY st) (Claims (setitem c ''aud'' v)))) = Inr p)
       \<longleftrightarrow> (\<exists>p. decode_access_token lib st now
                (Jws (ALGORITHM st) (Claims c)
                   (Mac (ALGORITHM st) (SECRET_KEY st) (Claims c))) = Inr p)"
proof -
  have "validate_claims lib now (setitem c ''aud'' v) None
          (if truthy (JWT_ISSUER st) then JWT_ISSUER st else None) False
        = validate_claims lib now c None
          (if truthy (JWT_ISSUER st) then JWT_ISSUER st else None) False"
    by (simp add: validate_claims_def validate_iat_def validate_nbf_def validate_exp_def
        validate_iss_def validate_sub_def validate_jti_def validate_at_hash_def
        map_of_setitem split: option.splits)
  then show ?thesis
    using assms by (auto simp: decode_access_token_def verify_with_def split: sum.splits)
qed

text \<open>With an issuer configured, a token without an issuer claim is refused.\<close>

lemma issuer_missing_rejected:
  assumes "truthy (JWT_ISSUER st)" "map_of c ''iss'' = None"
  shows "\<exists>e. decode_access_token lib st now (Jws alg (Claims c) sig) = Inl e"
proof -
  have "validate_iss (JWT_ISSUER st) c = Inl JWTClaimsError"
    using assms by (auto simp: validate_iss_def truthy_def split: option.splits)
  then have "\<exists>e. validate_claims lib now c
                  (if truthy (JWT_AUDIENCE st) then JWT_AUDIENCE st else None)
                  (JWT_ISSUER st) (truthy (JWT_AUDIENCE st)) = Inl e"
    unfolding validate_claims_def by (intro first_error_Inl [of JWTClaimsError]) simp
  then have "\<exists>e. jwt_decode lib now (Jws alg (Claims c) sig) (SECRET_KEY st) [ALGORITHM st]
                  (if truthy (JWT_AUDIENCE st) then JWT_AUDIENCE st else None)
                  (JWT_ISSUER st) (truthy (JWT_AUDIENCE st)) = Inl e"
    using jwt_decode_claims_Inl by blast
  then show ?thesis
    using assms(1) by (intro decode_access_token_Inl) simp
qed

text \<open>
  C7. A token issued while no audience was configured carries no audience claim, and it
  validates under settings that configure an audience, where the spec expects it to be
  refused.
  The library checks the audience only of a token that has the claim, and
  \<^verbatim>\<open>decode_access_token\<close> does not ask it to require the claim.
\<close>

theorem decode_accepts_missing_audience:
  "\<exists>tok payload.
     snd (create_access_token lib default_settings 1793707200600000
            [[(''sub'', PyInt 7)]] 0 None) = Inr tok
     \<and> get_unverified_claims tok = Some payload
     \<and> map_of payload ''aud'' = None
     \<and> decode_access_token lib (default_settings\<lparr>JWT_AUDIENCE := Some ''patients-api''\<rparr>)
          1793707200600000 tok = Inr payload"
  by (simp add: issue_simps validate_simps)

end
